theory Spec2Isabelle
  imports Complex_Main "HOL-Library.Sublist"
begin

section \<open>Values read from a spreadsheet\<close>

text \<open>
  The program \<^verbatim>\<open>build_dashboard.py\<close> reads cell values with openpyxl and formats
  them. A Python string is modelled by its UTF-8 bytes: the operations the program
  uses on strings (concatenation, equality, substring search, ASCII lower-casing of
  the keywords it looks for) agree on code points and on UTF-8 bytes.
  A finite Python float is a dyadic rational: \<open>Finite m k\<close> stands for the double whose
  exact value is \<open>m / 2 ^ k\<close> (every finite double has this form; \<open>1234.5\<close> is
  \<open>Finite 2469 1\<close>). Negative zero and the special values are constructors of their own.
\<close>

datatype pyfloat = Finite int nat | NegZero | NaN | PosInf | NegInf

record pydate =
  year :: int
  month :: int
  day :: int

datatype cell =
    CNone
  | CBool bool
  | CInt int
  | CFloat pyfloat
  | CStr string
  | CDateTime pydate nat
  | CDate pydate
  | CTime nat

datatype error =
    TypeError
  | ValueError
  | OverflowError
  | KeyError
  | IndexError
  | OutOfBoundsTimedelta
  | FileNotFoundError
  | FileExistsError
  | NotADirectoryError
  | IsADirectoryError
  | BadZipFile
  | UnicodeDecodeError
  | SameFileError
  | TemplateError

text \<open>The rupee sign U+20B9 and the em dash U+2014, as UTF-8.\<close>

definition rupee :: string where
  "rupee = [CHR 0xE2, CHR 0x82, CHR 0xB9]"

definition em_dash :: string where
  "em_dash = [CHR 0xE2, CHR 0x80, CHR 0x94]"

subsection \<open>Decimal rendering\<close>

definition digit_char :: "nat \<Rightarrow> char" where
  "digit_char d = ''0123456789'' ! d"

fun show_nat :: "nat \<Rightarrow> string" where
  "show_nat n = (if n < 10 then [digit_char n] else show_nat (n div 10) @ [digit_char (n mod 10)])"

declare show_nat.simps [simp del]

definition show_int :: "int \<Rightarrow> string" where
  "show_int i = (if i < 0 then CHR ''-'' # show_nat (nat (- i)) else show_nat (nat i))"

text \<open>\<open>pad_nat w n\<close> is \<open>n\<close> in decimal, zero-padded on the left to at least \<open>w\<close> digits.\<close>

definition pad_nat :: "nat \<Rightarrow> nat \<Rightarrow> string" where
  "pad_nat w n = replicate (w - length (show_nat n)) CHR ''0'' @ show_nat n"

text \<open>The \<^verbatim>\<open>,\<close> option of Python's format mini-language: groups of three digits.\<close>

fun group_nat :: "nat \<Rightarrow> string" where
  "group_nat n = (if n < 1000 then show_nat n
                  else group_nat (n div 1000) @ '','' @ pad_nat 3 (n mod 1000))"

declare group_nat.simps [simp del]

text \<open>
  \<open>round_half_even n d\<close> is the integer nearest to \<open>n / d\<close> for \<open>n \<ge> 0\<close> and \<open>d > 0\<close>,
  ties to even: Python formats the exact value of a double, rounding half to even.
\<close>

definition round_half_even :: "nat \<Rightarrow> nat \<Rightarrow> nat" where
  "round_half_even n d =
     (let q = n div d; r = n mod d
      in if 2 * r < d then q
         else if d < 2 * r then q + 1
         else if even q then q else q + 1)"

text \<open>
  \<open>fixed_decimal d m k\<close> is the magnitude \<open>m / 2 ^ k\<close> in the format \<^verbatim>\<open>,.<d>f\<close>:
  \<open>d\<close> decimals, the integer part in groups of three.
\<close>

definition fixed_decimal :: "nat \<Rightarrow> nat \<Rightarrow> nat \<Rightarrow> string" where
  "fixed_decimal d m k =
     (let s = round_half_even (m * 10 ^ d) (2 ^ k)
      in group_nat (s div 10 ^ d) @ (if d = 0 then [] else ''.'' @ pad_nat d (s mod 10 ^ d)))"

text \<open>\<^verbatim>\<open>f"{v:,.<d>f}"\<close> for a float \<open>v\<close>. A negative value keeps its sign when it rounds to zero.\<close>

fun format_float :: "nat \<Rightarrow> pyfloat \<Rightarrow> string" where
  "format_float d (Finite m k) =
     (if m < 0 then ''-'' @ fixed_decimal d (nat (- m)) k else fixed_decimal d (nat m) k)"
| "format_float d NegZero = ''-'' @ fixed_decimal d 0 0"
| "format_float d NaN = ''nan''"
| "format_float d PosInf = ''inf''"
| "format_float d NegInf = ''-inf''"

subsection \<open>Calendar dates\<close>

text \<open>
  Python's \<^verbatim>\<open>datetime\<close> works on the proleptic Gregorian calendar through day ordinals
  (day 1 is 0001-01-01). Adding a timedelta to a datetime moves the ordinal.
\<close>

definition is_leap :: "int \<Rightarrow> bool" where
  "is_leap y = (y mod 4 = 0 \<and> (y mod 100 \<noteq> 0 \<or> y mod 400 = 0))"

definition days_in_month :: "int \<Rightarrow> int \<Rightarrow> int" where
  "days_in_month y m =
     (if m = 2 then (if is_leap y then 29 else 28)
      else if m = 4 \<or> m = 6 \<or> m = 9 \<or> m = 11 then 30 else 31)"

definition days_before_year :: "int \<Rightarrow> int" where
  "days_before_year y = (let p = y - 1 in p * 365 + p div 4 - p div 100 + p div 400)"

fun days_before_month :: "int \<Rightarrow> nat \<Rightarrow> int" where
  "days_before_month y 0 = 0"
| "days_before_month y (Suc k) = days_before_month y k + days_in_month y (int (Suc k))"

definition ymd2ord :: "pydate \<Rightarrow> int" where
  "ymd2ord d = days_before_year (year d) + days_before_month (year d) (nat (month d - 1)) + day d"

text \<open>\<open>month_of y k r\<close>: the date of day \<open>r\<close> (from 0) counted from the first of month \<open>k\<close>.\<close>

function month_of :: "int \<Rightarrow> nat \<Rightarrow> int \<Rightarrow> pydate" where
  "month_of y k r =
     (if 12 \<le> k \<or> r < days_in_month y (int k) then \<lparr>year = y, month = int k, day = r + 1\<rparr>
      else month_of y (Suc k) (r - days_in_month y (int k)))"
  by pat_completeness auto
termination
  by (relation "measure (\<lambda>(y, k, r). 12 - k)") auto

declare month_of.simps [simp del]

definition ord2ymd :: "int \<Rightarrow> pydate" where
  "ord2ymd n =
     (let n0 = n - 1;
          n400 = n0 div 146097; r400 = n0 mod 146097;
          n100 = r400 div 36524; r100 = r400 mod 36524;
          n4 = r100 div 1461; r4 = r100 mod 1461;
          n1 = r4 div 365; r1 = r4 mod 365;
          y = n400 * 400 + n100 * 100 + n4 * 4 + n1 + 1
      in if n1 = 4 \<or> n100 = 4 then \<lparr>year = y - 1, month = 12, day = 31\<rparr>
         else month_of y 1 r1)"

definition month_abbr :: "int \<Rightarrow> string" where
  "month_abbr m =
     [''Jan'', ''Feb'', ''Mar'', ''Apr'', ''May'', ''Jun'',
      ''Jul'', ''Aug'', ''Sep'', ''Oct'', ''Nov'', ''Dec''] ! nat (m - 1)"

text \<open>
  \<^verbatim>\<open>strftime("%b %d, %Y")\<close> in the C locale: abbreviated month name, day of the month in
  two digits, year in decimal.
\<close>

definition strftime_b_d_Y :: "pydate \<Rightarrow> string" where
  "strftime_b_d_Y d =
     month_abbr (month d) @ '' '' @ pad_nat 2 (nat (day d)) @ '', '' @ show_int (year d)"

text \<open>\<^verbatim>\<open>str\<close> of a date, of a time of day (in microseconds) and of a datetime.\<close>

definition iso_date :: "pydate \<Rightarrow> string" where
  "iso_date d =
     pad_nat 4 (nat (year d)) @ ''-'' @ pad_nat 2 (nat (month d)) @ ''-'' @ pad_nat 2 (nat (day d))"

definition iso_time :: "nat \<Rightarrow> string" where
  "iso_time us =
     (let s = us div 1000000; f = us mod 1000000
      in pad_nat 2 (s div 3600) @ '':'' @ pad_nat 2 (s div 60 mod 60) @ '':'' @ pad_nat 2 (s mod 60)
         @ (if f = 0 then [] else ''.'' @ pad_nat 6 f))"

section \<open>Tables, charts and the arguments of the template\<close>

text \<open>
  A pandas data frame as the program builds it: the header cells as column labels and
  the data rows, every row as wide as the header.
\<close>

record table =
  columns :: "cell list"
  rows :: "cell list list"

text \<open>\<^verbatim>\<open>df[label]\<close> is a series when one column carries the label and a sub-frame when several do.\<close>

datatype selection = Series "cell list" | SubFrame table

text \<open>The figures the program asks plotly for, by the calls that build them.\<close>

datatype trace = Bar selection selection string

datatype figure =
    GoFigure "trace list" string string
  | PxLine table string string bool string
  | PxBar table string string string

text \<open>The argument \<^verbatim>\<open>include_plotlyjs\<close> of \<^verbatim>\<open>pio.to_html\<close>: \<^verbatim>\<open>"cdn"\<close> or \<^verbatim>\<open>False\<close>.\<close>

datatype plotlyjs = Cdn | NoPlotlyJs

text \<open>The keyword arguments of \<^verbatim>\<open>tpl.render\<close>, lines 207 to 225.\<close>

record render_args =
  last_updated :: string
  qty_sold :: cell
  qty_pending :: cell
  total_purchases :: string
  total_sales_completed :: string
  profit_loss :: string
  profit_status :: string
  pending_stock_value :: string
  chart_month :: string
  chart_profit :: string
  chart_cat_qty :: string
  chart_pending_val :: string
  contrib_cols :: "cell list"
  contrib_records :: "(cell \<times> cell) list list"
  cash_cols :: "cell list"
  cash_records :: "(cell \<times> cell) list list"
  excel_filename :: string

text \<open>
  What the program takes from Python and its libraries without defining it, as
  parameters of the model: \<^verbatim>\<open>repr\<close> of a float, the string parsers of \<^verbatim>\<open>float\<close>,
  \<^verbatim>\<open>int\<close> and \<^verbatim>\<open>pandas.to_numeric\<close> (\<open>None\<close> when the string is refused), plotly's
  \<^verbatim>\<open>pio.to_html\<close> with \<^verbatim>\<open>full_html=False\<close> and the fixed configuration, and jinja2's
  \<^verbatim>\<open>Template(text)\<close> (\<open>Some e\<close> when the text is refused) and \<^verbatim>\<open>render\<close>. \<^verbatim>\<open>pio.to_html\<close> is called without \<^verbatim>\<open>div_id\<close>, so plotly
  gives the chart's \<^verbatim>\<open>div\<close> element a freshly generated UUID: it is the last argument
  of \<open>to_html\<close>.
\<close>

record pylib =
  str_of_float :: "pyfloat \<Rightarrow> string"
  float_of_str :: "string \<Rightarrow> pyfloat option"
  int_of_str :: "string \<Rightarrow> int option"
  numeric_of_str :: "string \<Rightarrow> cell option"
  to_html :: "plotlyjs \<Rightarrow> figure \<Rightarrow> string \<Rightarrow> error + string"
  compile_template :: "string \<Rightarrow> error option"
  render :: "string \<Rightarrow> render_args \<Rightarrow> error + string"

section \<open>Conversions of Python\<close>

fun py_str :: "pylib \<Rightarrow> cell \<Rightarrow> string" where
  "py_str L CNone = ''None''"
| "py_str L (CBool b) = (if b then ''True'' else ''False'')"
| "py_str L (CInt i) = show_int i"
| "py_str L (CFloat v) = str_of_float L v"
| "py_str L (CStr s) = s"
| "py_str L (CDateTime d t) = iso_date d @ '' '' @ iso_time t"
| "py_str L (CDate d) = iso_date d"
| "py_str L (CTime t) = iso_time t"

fun truthy :: "cell \<Rightarrow> bool" where
  "truthy CNone = False"
| "truthy (CBool b) = b"
| "truthy (CInt i) = (i \<noteq> 0)"
| "truthy (CFloat (Finite m k)) = (m \<noteq> 0)"
| "truthy (CFloat NegZero) = False"
| "truthy (CFloat v) = True"
| "truthy (CStr s) = (s \<noteq> [])"
| "truthy (CDateTime d t) = True"
| "truthy (CDate d) = True"
| "truthy (CTime t) = True"

fun bitlen :: "nat \<Rightarrow> nat" where
  "bitlen n = (if n = 0 then 0 else Suc (bitlen (n div 2)))"

declare bitlen.simps [simp del]

text \<open>
  \<^verbatim>\<open>float(n)\<close> for an integer: exact up to 53 bits, beyond that the nearest double
  (ties to even), and \<^verbatim>\<open>OverflowError\<close> when that is not finite.
\<close>

definition float_of_int :: "int \<Rightarrow> error + pyfloat" where
  "float_of_int n =
     (let m = nat \<bar>n\<bar>; b = bitlen m
      in if b \<le> 53 then Inr (Finite n 0)
         else let sh = b - 53; v = round_half_even m (2 ^ sh) * 2 ^ sh
              in if 2 ^ 1024 \<le> v then Inl OverflowError
                 else Inr (Finite (sgn n * int v) 0))"

fun py_float :: "pylib \<Rightarrow> cell \<Rightarrow> error + pyfloat" where
  "py_float L CNone = Inl TypeError"
| "py_float L (CBool b) = Inr (Finite (if b then 1 else 0) 0)"
| "py_float L (CInt n) = float_of_int n"
| "py_float L (CFloat v) = Inr v"
| "py_float L (CStr s) = (case float_of_str L s of None \<Rightarrow> Inl ValueError | Some v \<Rightarrow> Inr v)"
| "py_float L (CDateTime d t) = Inl TypeError"
| "py_float L (CDate d) = Inl TypeError"
| "py_float L (CTime t) = Inl TypeError"

text \<open>\<^verbatim>\<open>int(x)\<close>: a float is truncated toward zero.\<close>

fun py_int :: "pylib \<Rightarrow> cell \<Rightarrow> error + int" where
  "py_int L CNone = Inl TypeError"
| "py_int L (CBool b) = Inr (if b then 1 else 0)"
| "py_int L (CInt n) = Inr n"
| "py_int L (CFloat (Finite m k)) = Inr (if m < 0 then - ((- m) div 2 ^ k) else m div 2 ^ k)"
| "py_int L (CFloat NegZero) = Inr 0"
| "py_int L (CFloat NaN) = Inl ValueError"
| "py_int L (CFloat PosInf) = Inl OverflowError"
| "py_int L (CFloat NegInf) = Inl OverflowError"
| "py_int L (CStr s) = (case int_of_str L s of None \<Rightarrow> Inl ValueError | Some n \<Rightarrow> Inr n)"
| "py_int L (CDateTime d t) = Inl TypeError"
| "py_int L (CDate d) = Inl TypeError"
| "py_int L (CTime t) = Inl TypeError"

section \<open>Helpers of the program\<close>

subsection \<open>\<^verbatim>\<open>excel_serial_to_datetime\<close>, lines 65 to 71\<close>

text \<open>
  \<^verbatim>\<open>pd.to_timedelta(v, unit="D")\<close> holds a count of nanoseconds in 64 bits, or \<^verbatim>\<open>NaT\<close> for
  a NaN. A whole number of days is converted exactly; pandas converts a fraction of a
  day in floating point, which is modelled here by the exact product truncated toward
  zero.
\<close>

datatype timedelta = Timedelta int | NaT

definition ns_per_day :: int where
  "ns_per_day = 86400000000000"

fun to_timedelta_days :: "pyfloat \<Rightarrow> error + timedelta" where
  "to_timedelta_days (Finite m k) =
     (let p = \<bar>m\<bar> * ns_per_day div 2 ^ k
      in if p \<le> 2 ^ 63 - 1 then Inr (Timedelta (sgn m * p)) else Inl OutOfBoundsTimedelta)"
| "to_timedelta_days NegZero = Inr (Timedelta 0)"
| "to_timedelta_days NaN = Inr NaT"
| "to_timedelta_days PosInf = Inl OutOfBoundsTimedelta"
| "to_timedelta_days NegInf = Inl OutOfBoundsTimedelta"

definition epoch :: pydate where
  "epoch = \<lparr>year = 1899, month = 12, day = 30\<rparr>"

text \<open>
  \<^verbatim>\<open>datetime(1899, 12, 30) + td\<close> followed by \<^verbatim>\<open>strftime\<close>: the epoch is a midnight, so the
  date moves by the whole days of \<open>td\<close>, rounded down. \<^verbatim>\<open>NaT\<close> absorbs the addition and
  refuses \<^verbatim>\<open>strftime\<close>.
\<close>

fun epoch_plus :: "timedelta \<Rightarrow> error + pydate" where
  "epoch_plus (Timedelta ns) = Inr (ord2ymd (ymd2ord epoch + ns div ns_per_day))"
| "epoch_plus NaT = Inl ValueError"

definition is_int_or_float :: "cell \<Rightarrow> bool" where
  "is_int_or_float x = (case x of CBool b \<Rightarrow> True | CInt n \<Rightarrow> True | CFloat v \<Rightarrow> True | _ \<Rightarrow> False)"

fun excel_serial_to_datetime :: "pylib \<Rightarrow> cell \<Rightarrow> error + string" where
  "excel_serial_to_datetime L (CDateTime d t) = Inr (strftime_b_d_Y d)"
| "excel_serial_to_datetime L (CDate d) = Inr (strftime_b_d_Y d)"
| "excel_serial_to_datetime L x =
     (if is_int_or_float x \<and> truthy x then
        (case py_float L x of
           Inl e \<Rightarrow> Inl e
         | Inr v \<Rightarrow>
             (case to_timedelta_days v of
                Inl e \<Rightarrow> Inl e
              | Inr td \<Rightarrow>
                  (case epoch_plus td of Inl e \<Rightarrow> Inl e | Inr d \<Rightarrow> Inr (strftime_b_d_Y d))))
      else Inr em_dash)"

subsection \<open>\<^verbatim>\<open>money0\<close> and \<^verbatim>\<open>money2\<close>, lines 74 to 93\<close>

definition is_float_nan :: "cell \<Rightarrow> bool" where
  "is_float_nan x = (case x of CFloat NaN \<Rightarrow> True | _ \<Rightarrow> False)"

text \<open>
  The body of each \<^verbatim>\<open>try\<close> block, whose value is the string returned or the exception
  raised in it; the handler \<^verbatim>\<open>except Exception\<close> then returns \<^verbatim>\<open>str(x)\<close>.
\<close>

definition money0_try :: "pylib \<Rightarrow> cell \<Rightarrow> error + string" where
  "money0_try L x =
     (if x = CNone then Inr (rupee @ ''0'')
      else if is_float_nan x then Inr (rupee @ ''0'')
      else (case py_float L x of Inl e \<Rightarrow> Inl e | Inr v \<Rightarrow> Inr (rupee @ format_float 0 v)))"

definition money0 :: "pylib \<Rightarrow> cell \<Rightarrow> string" where
  "money0 L x = (case money0_try L x of Inl e \<Rightarrow> py_str L x | Inr s \<Rightarrow> s)"

definition money2_try :: "pylib \<Rightarrow> cell \<Rightarrow> error + string" where
  "money2_try L x =
     (if x = CNone then Inr (rupee @ ''0.00'')
      else if is_float_nan x then Inr (rupee @ ''0.00'')
      else (case py_float L x of Inl e \<Rightarrow> Inl e | Inr v \<Rightarrow> Inr (rupee @ format_float 2 v)))"

definition money2 :: "pylib \<Rightarrow> cell \<Rightarrow> string" where
  "money2 L x = (case money2_try L x of Inl e \<Rightarrow> py_str L x | Inr s \<Rightarrow> s)"

subsection \<open>\<^verbatim>\<open>read_range\<close> and \<^verbatim>\<open>df_from_range\<close>, lines 96 to 106\<close>

text \<open>A worksheet gives every cell (row, column) a value; an empty cell holds \<^verbatim>\<open>None\<close>.\<close>

type_synonym sheet = "nat \<times> nat \<Rightarrow> cell"

definition read_range :: "sheet \<Rightarrow> nat \<Rightarrow> nat \<Rightarrow> nat \<Rightarrow> nat \<Rightarrow> cell list list" where
  "read_range ws min_row max_row min_col max_col =
     map (\<lambda>r. map (\<lambda>c. ws (r, c)) [min_col..<max_col + 1]) [min_row..<max_row + 1]"

definition df_from_range :: "sheet \<Rightarrow> nat \<Rightarrow> nat \<times> nat \<Rightarrow> nat \<times> nat \<Rightarrow> table" where
  "df_from_range ws header_row data_rows cols =
     (let headers = read_range ws header_row header_row (fst cols) (snd cols) ! 0;
          data = read_range ws (fst data_rows) (snd data_rows) (fst cols) (snd cols)
      in \<lparr>columns = headers, rows = data\<rparr>)"

subsection \<open>Data frame operations the program uses\<close>

text \<open>\<^verbatim>\<open>df[c]\<close>: \<^verbatim>\<open>KeyError\<close> without such a column.\<close>

definition getitem :: "table \<Rightarrow> cell \<Rightarrow> error + selection" where
  "getitem df c =
     (case filter (\<lambda>i. columns df ! i = c) [0..<length (columns df)] of
        [] \<Rightarrow> Inl KeyError
      | [i] \<Rightarrow> Inr (Series (map (\<lambda>r. r ! i) (rows df)))
      | js \<Rightarrow> Inr (SubFrame \<lparr>columns = map (\<lambda>i. columns df ! i) js,
                              rows = map (\<lambda>r. map (\<lambda>i. r ! i) js) (rows df)\<rparr>))"

text \<open>\<^verbatim>\<open>df[c] = series\<close> for a label \<open>c\<close> the frame has: the column keeps its place.\<close>

definition setitem :: "table \<Rightarrow> cell \<Rightarrow> cell list \<Rightarrow> table" where
  "setitem df c vs =
     df\<lparr>rows := map (\<lambda>(r, v). map (\<lambda>(l, x). if l = c then v else x) (zip (columns df) r))
                    (zip (rows df) vs)\<rparr>"

text \<open>\<^verbatim>\<open>df.iloc[:, idx]\<close>: positions, negative ones counted from the end.\<close>

definition py_index :: "nat \<Rightarrow> int \<Rightarrow> error + nat" where
  "py_index n i =
     (let j = (if i < 0 then int n + i else i)
      in if 0 \<le> j \<and> j < int n then Inr (nat j) else Inl IndexError)"

fun py_indices :: "nat \<Rightarrow> int list \<Rightarrow> error + nat list" where
  "py_indices n [] = Inr []"
| "py_indices n (i # idx) =
     (case py_index n i of
        Inl e \<Rightarrow> Inl e
      | Inr j \<Rightarrow> (case py_indices n idx of Inl e \<Rightarrow> Inl e | Inr js \<Rightarrow> Inr (j # js)))"

definition iloc_cols :: "table \<Rightarrow> int list \<Rightarrow> error + table" where
  "iloc_cols df idx =
     (case py_indices (length (columns df)) idx of
        Inl e \<Rightarrow> Inl e
      | Inr js \<Rightarrow> Inr \<lparr>columns = map (\<lambda>j. columns df ! j) js,
                        rows = map (\<lambda>r. map (\<lambda>j. r ! j) js) (rows df)\<rparr>)"

text \<open>\<^verbatim>\<open>df.to_dict(orient="records")\<close>: every row paired with the labels, in column order.\<close>

definition to_records :: "table \<Rightarrow> (cell \<times> cell) list list" where
  "to_records df = map (\<lambda>r. zip (columns df) r) (rows df)"

subsection \<open>\<^verbatim>\<open>format_df_currency\<close>, lines 109 to 115\<close>

fun contains :: "string \<Rightarrow> string \<Rightarrow> bool" where
  "contains xs [] = (xs = [])"
| "contains xs (y # ys) = (prefix xs (y # ys) \<or> contains xs ys)"

definition lower_char :: "char \<Rightarrow> char" where
  "lower_char c =
     (case map_of (zip ''ABCDEFGHIJKLMNOPQRSTUVWXYZ'' ''abcdefghijklmnopqrstuvwxyz'') c of
        None \<Rightarrow> c
      | Some l \<Rightarrow> l)"

definition lower :: "string \<Rightarrow> string" where
  "lower s = map lower_char s"

definition currency_keywords :: "string list" where
  "currency_keywords =
     [''amount'', ''value'', ''paid'', ''balance'', ''target'', ''excess'', ''collected'',
      ''transferred'', ''share'']"

definition is_currency_col :: "string \<Rightarrow> bool" where
  "is_currency_col col_s =
     (contains rupee col_s \<or> list_ex (\<lambda>k. contains k (lower col_s)) currency_keywords)"

text \<open>
  The loop of lines 111 to 114 over the labels. With a label that several columns
  carry, \<^verbatim>\<open>df2[col]\<close> is a sub-frame, \<^verbatim>\<open>apply\<close> gives a series indexed by that label, and
  pandas refuses to align it with the rows.
\<close>

fun format_columns :: "pylib \<Rightarrow> cell list \<Rightarrow> table \<Rightarrow> error + table" where
  "format_columns L [] df2 = Inr df2"
| "format_columns L (col # cols) df2 =
     (if is_currency_col (py_str L col) then
        (case getitem df2 col of
           Inl e \<Rightarrow> Inl e
         | Inr (Series vs) \<Rightarrow> format_columns L cols (setitem df2 col (map (\<lambda>v. CStr (money2 L v)) vs))
         | Inr (SubFrame t) \<Rightarrow> Inl ValueError)
      else format_columns L cols df2)"

definition format_df_currency :: "pylib \<Rightarrow> table \<Rightarrow> error + (cell \<times> cell) list list \<times> cell list" where
  "format_df_currency L df =
     (case format_columns L (columns df) df of
        Inl e \<Rightarrow> Inl e
      | Inr df2 \<Rightarrow> Inr (to_records df2, columns df2))"

section \<open>The builder, lines 121 to 233\<close>

subsection \<open>Configuration, lines 20 to 59\<close>

text \<open>Cell addresses as (row, column): \<^verbatim>\<open>B3\<close> is row 3 of column 2.\<close>

definition SHEET_SUMMARY :: string where "SHEET_SUMMARY = ''Summary''"
definition SHEET_DASHBOARD :: string where "SHEET_DASHBOARD = ''Dashboard''"

definition CELL_TOTAL_PURCHASES :: "nat \<times> nat" where "CELL_TOTAL_PURCHASES = (3, 2)"
definition CELL_TOTAL_SALES_COMPLETED :: "nat \<times> nat" where "CELL_TOTAL_SALES_COMPLETED = (4, 2)"
definition CELL_PROFIT_LOSS_COMPLETED :: "nat \<times> nat" where "CELL_PROFIT_LOSS_COMPLETED = (6, 2)"
definition CELL_PROFIT_STATUS :: "nat \<times> nat" where "CELL_PROFIT_STATUS = (7, 2)"
definition CELL_LAST_UPDATED :: "nat \<times> nat" where "CELL_LAST_UPDATED = (3, 2)"
definition CELL_PENDING_STOCK_VALUE :: "nat \<times> nat" where "CELL_PENDING_STOCK_VALUE = (6, 5)"
definition CELL_QTY_SOLD :: "nat \<times> nat" where "CELL_QTY_SOLD = (10, 7)"
definition CELL_QTY_PENDING :: "nat \<times> nat" where "CELL_QTY_PENDING = (11, 7)"

definition MONTH_HEADER_ROW :: nat where "MONTH_HEADER_ROW = 9"
definition MONTH_DATA_ROWS :: "nat \<times> nat" where "MONTH_DATA_ROWS = (10, 21)"
definition MONTH_COLS :: "nat \<times> nat" where "MONTH_COLS = (1, 4)"
definition CATQTY_HEADER_ROW :: nat where "CATQTY_HEADER_ROW = 46"
definition CATQTY_DATA_ROWS :: "nat \<times> nat" where "CATQTY_DATA_ROWS = (47, 49)"
definition CATQTY_COLS :: "nat \<times> nat" where "CATQTY_COLS = (6, 8)"
definition PENDVAL_HEADER_ROW :: nat where "PENDVAL_HEADER_ROW = 46"
definition PENDVAL_DATA_ROWS :: "nat \<times> nat" where "PENDVAL_DATA_ROWS = (47, 49)"
definition PENDVAL_COLS :: "nat \<times> nat" where "PENDVAL_COLS = (10, 11)"
definition CONTRIB_HEADER_ROW :: nat where "CONTRIB_HEADER_ROW = 17"
definition CONTRIB_DATA_ROWS :: "nat \<times> nat" where "CONTRIB_DATA_ROWS = (18, 20)"
definition CONTRIB_COLS :: "nat \<times> nat" where "CONTRIB_COLS = (1, 7)"
definition CASH_HEADER_ROW :: nat where "CASH_HEADER_ROW = 25"
definition CASH_DATA_ROWS :: "nat \<times> nat" where "CASH_DATA_ROWS = (26, 28)"
definition CASH_COLS :: "nat \<times> nat" where "CASH_COLS = (1, 7)"

text \<open>The column names the program looks for.\<close>

definition purchases_col :: string where "purchases_col = ''Purchases ('' @ rupee @ '')''"
definition sales_col :: string where "sales_col = ''Sales ('' @ rupee @ '')''"
definition profit_col :: string where "profit_col = ''Profit ('' @ rupee @ '')''"
definition pending_value_col :: string where "pending_value_col = ''Pending Value ('' @ rupee @ '')''"


subsection \<open>Sequencing of steps that may raise\<close>

definition then_do :: "error + 'a \<Rightarrow> ('a \<Rightarrow> error + 'b) \<Rightarrow> error + 'b" where
  "then_do m f = (case m of Inl e \<Rightarrow> Inl e | Inr x \<Rightarrow> f x)"

subsection \<open>Numeric coercion, lines 151 to 164\<close>

text \<open>
  \<^verbatim>\<open>pd.to_numeric(series, errors="coerce")\<close> entry by entry, as documented: a number
  stays, a string is parsed, and whatever is not a number becomes NaN.
  \<^verbatim>\<open>fillna(0)\<close> puts zero for NaN. The column types pandas infers are not modelled.
\<close>

fun to_numeric :: "pylib \<Rightarrow> cell \<Rightarrow> cell" where
  "to_numeric L (CBool b) = CBool b"
| "to_numeric L (CInt n) = CInt n"
| "to_numeric L (CFloat v) = CFloat v"
| "to_numeric L (CStr s) = (case numeric_of_str L s of None \<Rightarrow> CFloat NaN | Some v \<Rightarrow> v)"
| "to_numeric L x = CFloat NaN"

definition fillna0 :: "cell \<Rightarrow> cell" where
  "fillna0 x = (if x = CFloat NaN then CFloat (Finite 0 0) else x)"

text \<open>
  The loops \<^verbatim>\<open>for c in [...]: if c in df.columns: df[c] = pd.to_numeric(df[c], ...)\<close>.
  \<^verbatim>\<open>pd.to_numeric\<close> refuses a sub-frame with \<^verbatim>\<open>TypeError\<close>.
\<close>

fun coerce_numeric :: "pylib \<Rightarrow> string list \<Rightarrow> table \<Rightarrow> error + table" where
  "coerce_numeric L [] df = Inr df"
| "coerce_numeric L (c # cs) df =
     (if CStr c \<in> set (columns df) then
        (case getitem df (CStr c) of
           Inl e \<Rightarrow> Inl e
         | Inr (Series vs) \<Rightarrow>
             coerce_numeric L cs (setitem df (CStr c) (map (\<lambda>v. fillna0 (to_numeric L v)) vs))
         | Inr (SubFrame t) \<Rightarrow> Inl TypeError)
      else coerce_numeric L cs df)"

subsection \<open>Charts, lines 167 to 198\<close>

definition has_columns :: "string list \<Rightarrow> table \<Rightarrow> bool" where
  "has_columns names df = list_all (\<lambda>c. CStr c \<in> set (columns df)) names"

definition month_placeholder :: string where
  "month_placeholder =
     ''<div style='' @ [CHR 0x27] @ ''color:#6b7280;font-size:13px'' @ [CHR 0x27]
     @ ''>Monthly chart unavailable (columns changed).</div>''"

definition profit_placeholder :: string where
  "profit_placeholder =
     ''<div style='' @ [CHR 0x27] @ ''color:#6b7280;font-size:13px'' @ [CHR 0x27]
     @ ''>Profit chart unavailable (columns changed).</div>''"

definition cat_qty_placeholder :: string where
  "cat_qty_placeholder =
     ''<div style='' @ [CHR 0x27] @ ''color:#6b7280;font-size:13px'' @ [CHR 0x27]
     @ ''>Category qty chart unavailable (columns changed).</div>''"

definition pending_val_placeholder :: string where
  "pending_val_placeholder =
     ''<div style='' @ [CHR 0x27] @ ''color:#6b7280;font-size:13px'' @ [CHR 0x27]
     @ ''>Pending value chart unavailable (columns changed).</div>''"

text \<open>\<^verbatim>\<open>go.Bar(x=df[xc], y=df[yc], name=name)\<close>.\<close>

definition bar_trace :: "table \<Rightarrow> string \<Rightarrow> string \<Rightarrow> string \<Rightarrow> error + trace" where
  "bar_trace df xc yc name =
     then_do (getitem df (CStr xc)) (\<lambda>x.
     then_do (getitem df (CStr yc)) (\<lambda>y. Inr (Bar x y name)))"

text \<open>
  Every slot takes the run's stream of fresh identifiers \<open>ids\<close> and the number \<open>k\<close> of
  identifiers drawn so far, and returns the slot's string (or the fault of the library)
  with the new count: a call of \<^verbatim>\<open>pio.to_html\<close> draws one identifier.
\<close>

definition month_slot :: "pylib \<Rightarrow> (nat \<Rightarrow> string) \<Rightarrow> nat \<Rightarrow> table \<Rightarrow> (error + string) \<times> nat" where
  "month_slot L ids k month_df =
     (if has_columns [''Month'', purchases_col, sales_col] month_df then
        (then_do (bar_trace month_df ''Month'' purchases_col ''Purchases'') (\<lambda>t1.
         then_do (bar_trace month_df ''Month'' sales_col ''Sales'') (\<lambda>t2.
         to_html L Cdn (GoFigure [t1, t2] ''group'' ''Monthly Purchases vs Sales'') (ids k))),
         Suc k)
      else (Inr month_placeholder, k))"

definition profit_slot :: "pylib \<Rightarrow> (nat \<Rightarrow> string) \<Rightarrow> nat \<Rightarrow> table \<Rightarrow> (error + string) \<times> nat" where
  "profit_slot L ids k month_df =
     (if has_columns [''Month'', profit_col] month_df then
        (to_html L NoPlotlyJs
           (PxLine month_df ''Month'' profit_col True (''Monthly Profit ('' @ rupee @ '')'')) (ids k),
         Suc k)
      else (Inr profit_placeholder, k))"

definition cat_qty_slot :: "pylib \<Rightarrow> (nat \<Rightarrow> string) \<Rightarrow> nat \<Rightarrow> table \<Rightarrow> (error + string) \<times> nat" where
  "cat_qty_slot L ids k cat_qty_df =
     (if has_columns [''Category'', ''Qty Sold'', ''Qty Pending''] cat_qty_df then
        (then_do (bar_trace cat_qty_df ''Category'' ''Qty Sold'' ''Qty Sold'') (\<lambda>t1.
         then_do (bar_trace cat_qty_df ''Category'' ''Qty Pending'' ''Qty Pending'') (\<lambda>t2.
         to_html L NoPlotlyJs (GoFigure [t1, t2] ''stack'' ''Quantity by Category'') (ids k))),
         Suc k)
      else (Inr cat_qty_placeholder, k))"

definition pending_val_slot :: "pylib \<Rightarrow> (nat \<Rightarrow> string) \<Rightarrow> nat \<Rightarrow> table \<Rightarrow> (error + string) \<times> nat" where
  "pending_val_slot L ids k pending_val_df =
     (if has_columns [''Category'', pending_value_col] pending_val_df then
        (to_html L NoPlotlyJs
           (PxBar pending_val_df ''Category'' pending_value_col
              (''Pending Stock Value by Category ('' @ rupee @ '')'')) (ids k),
         Suc k)
      else (Inr pending_val_placeholder, k))"

text \<open>The dictionary \<^verbatim>\<open>charts\<close>.\<close>

record chart_set =
  month :: string
  profit :: string
  cat_qty :: string
  pending_val :: string

definition build_charts ::
  "pylib \<Rightarrow> (nat \<Rightarrow> string) \<Rightarrow> table \<Rightarrow> table \<Rightarrow> table \<Rightarrow> error + chart_set" where
  "build_charts L ids month_df cat_qty_df pending_val_df =
     (case month_slot L ids 0 month_df of (r1, k1) \<Rightarrow>
      then_do r1 (\<lambda>c1.
      case profit_slot L ids k1 month_df of (r2, k2) \<Rightarrow>
      then_do r2 (\<lambda>c2.
      case cat_qty_slot L ids k2 cat_qty_df of (r3, k3) \<Rightarrow>
      then_do r3 (\<lambda>c3.
      case pending_val_slot L ids k3 pending_val_df of (r4, k4) \<Rightarrow>
      then_do r4 (\<lambda>c4.
      Inr \<lparr>month = c1, profit = c2, cat_qty = c3, pending_val = c4\<rparr>)))))"

subsection \<open>Files\<close>

text \<open>
  A workbook maps sheet names to worksheets. A file is a spreadsheet that openpyxl can
  load, or text. The file system is what the program can observe and change: the
  directories that exist and the files with their contents. A path is the list of its
  components.
\<close>

datatype content = Workbook "string \<Rightarrow> sheet option" | Text string

type_synonym path = "string list"

record filesystem =
  dirs :: "path set"
  files :: "path \<Rightarrow> content option"

text \<open>The path itself and the directories above it, the root apart.\<close>

definition with_parents :: "path \<Rightarrow> path list" where
  "with_parents p = map (\<lambda>n. take n p) [1..<length p + 1]"

text \<open>\<^verbatim>\<open>dist_dir.mkdir(parents=True, exist_ok=True)\<close>, line 122.\<close>

definition mkdir_parents :: "path \<Rightarrow> filesystem \<Rightarrow> error + filesystem" where
  "mkdir_parents d s =
     (if files s d \<noteq> None then Inl FileExistsError
      else if list_ex (\<lambda>p. files s p \<noteq> None) (with_parents d) then Inl NotADirectoryError
      else Inr (s\<lparr>dirs := dirs s \<union> set (with_parents d)\<rparr>))"

text \<open>\<^verbatim>\<open>openpyxl.load_workbook(input_xlsx, data_only=True)\<close>, line 124.\<close>

definition load_workbook :: "filesystem \<Rightarrow> path \<Rightarrow> error + (string \<Rightarrow> sheet option)" where
  "load_workbook s p =
     (case files s p of
        None \<Rightarrow> Inl (if p \<in> dirs s then IsADirectoryError else FileNotFoundError)
      | Some (Workbook wb) \<Rightarrow> Inr wb
      | Some (Text t) \<Rightarrow> Inl BadZipFile)"

text \<open>\<^verbatim>\<open>wb[name]\<close>, lines 125 and 126.\<close>

definition get_sheet :: "(string \<Rightarrow> sheet option) \<Rightarrow> string \<Rightarrow> error + sheet" where
  "get_sheet wb name = (case wb name of None \<Rightarrow> Inl KeyError | Some ws \<Rightarrow> Inr ws)"

text \<open>\<^verbatim>\<open>template_path.read_text(encoding="utf-8")\<close>, line 204.\<close>

definition read_text :: "filesystem \<Rightarrow> path \<Rightarrow> error + string" where
  "read_text s p =
     (case files s p of
        None \<Rightarrow> Inl (if p \<in> dirs s then IsADirectoryError else FileNotFoundError)
      | Some (Workbook wb) \<Rightarrow> Inl UnicodeDecodeError
      | Some (Text t) \<Rightarrow> Inr t)"

text \<open>\<^verbatim>\<open>(dist_dir / "index.html").write_text(html, encoding="utf-8")\<close>, line 227.\<close>

definition write_text :: "filesystem \<Rightarrow> path \<Rightarrow> string \<Rightarrow> error + filesystem" where
  "write_text s p t =
     (if p \<in> dirs s then Inl IsADirectoryError
      else Inr (s\<lparr>files := (files s)(p \<mapsto> Text t)\<rparr>))"

text \<open>\<^verbatim>\<open>shutil.copyfile(src, dst)\<close>, line 230.\<close>

definition copyfile :: "filesystem \<Rightarrow> path \<Rightarrow> path \<Rightarrow> error + filesystem" where
  "copyfile s src dst =
     (case files s src of
        None \<Rightarrow> Inl (if src \<in> dirs s then IsADirectoryError else FileNotFoundError)
      | Some c \<Rightarrow>
          if src = dst then Inl SameFileError
          else if dst \<in> dirs s then Inl IsADirectoryError
          else Inr (s\<lparr>files := (files s)(dst \<mapsto> c)\<rparr>))"

subsection \<open>\<^verbatim>\<open>build\<close>\<close>

text \<open>Lines 140 to 149: the two tables of the summary sheet, narrowed by position.\<close>

definition contrib_table :: "sheet \<Rightarrow> error + table" where
  "contrib_table ws_sum =
     iloc_cols (df_from_range ws_sum CONTRIB_HEADER_ROW CONTRIB_DATA_ROWS CONTRIB_COLS) [0, - 2, - 1]"

definition cash_table :: "sheet \<Rightarrow> error + table" where
  "cash_table ws_sum =
     iloc_cols (df_from_range ws_sum CASH_HEADER_ROW CASH_DATA_ROWS CASH_COLS) [0, - 2, - 1]"

text \<open>Lines 151 to 164: the three tables of the dashboard sheet, coerced.\<close>

definition month_table :: "pylib \<Rightarrow> sheet \<Rightarrow> error + table" where
  "month_table L ws_dash =
     coerce_numeric L [purchases_col, sales_col, profit_col]
       (df_from_range ws_dash MONTH_HEADER_ROW MONTH_DATA_ROWS MONTH_COLS)"

definition cat_qty_table :: "pylib \<Rightarrow> sheet \<Rightarrow> error + table" where
  "cat_qty_table L ws_dash =
     coerce_numeric L [''Qty Sold'', ''Qty Pending'']
       (df_from_range ws_dash CATQTY_HEADER_ROW CATQTY_DATA_ROWS CATQTY_COLS)"

definition pending_val_table :: "pylib \<Rightarrow> sheet \<Rightarrow> error + table" where
  "pending_val_table L ws_dash =
     coerce_numeric L [pending_value_col]
       (df_from_range ws_dash PENDVAL_HEADER_ROW PENDVAL_DATA_ROWS PENDVAL_COLS)"

text \<open>Lines 209 and 210: \<^verbatim>\<open>int(q) if q is not None else "\<emdash>"\<close>.\<close>

definition kpi_count :: "pylib \<Rightarrow> cell \<Rightarrow> error + cell" where
  "kpi_count L q =
     (if q \<noteq> CNone then then_do (py_int L q) (\<lambda>n. Inr (CInt n)) else Inr (CStr em_dash))"

text \<open>Line 214: \<^verbatim>\<open>str(profit_status or "")\<close>.\<close>

definition status_text :: "pylib \<Rightarrow> cell \<Rightarrow> string" where
  "status_text L x = py_str L (if truthy x then x else CStr [])"

definition excel_filename_latest :: string where
  "excel_filename_latest = ''Chiraath-Business-Summary-Latest.xlsx''"

text \<open>
  Lines 124 to 225, from the loading of the workbook to the rendered document: the
  value is the HTML text, or the exception that ends the run.
\<close>

definition render_html ::
  "pylib \<Rightarrow> (nat \<Rightarrow> string) \<Rightarrow> filesystem \<Rightarrow> path \<Rightarrow> path \<Rightarrow> error + string" where
  "render_html L ids s input_xlsx template_path =
     then_do (load_workbook s input_xlsx) (\<lambda>wb.
     then_do (get_sheet wb SHEET_SUMMARY) (\<lambda>ws_sum.
     then_do (get_sheet wb SHEET_DASHBOARD) (\<lambda>ws_dash.
     then_do (excel_serial_to_datetime L (ws_dash CELL_LAST_UPDATED)) (\<lambda>updated.
     then_do (contrib_table ws_sum) (\<lambda>contrib_df.
     then_do (cash_table ws_sum) (\<lambda>cash_df.
     then_do (month_table L ws_dash) (\<lambda>month_df.
     then_do (cat_qty_table L ws_dash) (\<lambda>cat_qty_df.
     then_do (pending_val_table L ws_dash) (\<lambda>pending_val_df.
     then_do (build_charts L ids month_df cat_qty_df pending_val_df) (\<lambda>charts.
     then_do (format_df_currency L contrib_df) (\<lambda>contrib.
     then_do (format_df_currency L cash_df) (\<lambda>cash.
     then_do (read_text s template_path) (\<lambda>tpl.
     then_do (case compile_template L tpl of None \<Rightarrow> Inr () | Some e \<Rightarrow> Inl e) (\<lambda>u.
     then_do (kpi_count L (ws_dash CELL_QTY_SOLD)) (\<lambda>sold.
     then_do (kpi_count L (ws_dash CELL_QTY_PENDING)) (\<lambda>pending.
     render L tpl
       \<lparr>last_updated = updated,
        qty_sold = sold,
        qty_pending = pending,
        total_purchases = money0 L (ws_sum CELL_TOTAL_PURCHASES),
        total_sales_completed = money0 L (ws_sum CELL_TOTAL_SALES_COMPLETED),
        profit_loss = money0 L (ws_sum CELL_PROFIT_LOSS_COMPLETED),
        profit_status = status_text L (ws_sum CELL_PROFIT_STATUS),
        pending_stock_value = money2 L (ws_dash CELL_PENDING_STOCK_VALUE),
        chart_month = month charts,
        chart_profit = profit charts,
        chart_cat_qty = cat_qty charts,
        chart_pending_val = pending_val charts,
        contrib_cols = snd contrib,
        contrib_records = fst contrib,
        cash_cols = snd cash,
        cash_records = fst cash,
        excel_filename = excel_filename_latest\<rparr>))))))))))))))))"

text \<open>
  The whole of \<^verbatim>\<open>build\<close>: the outcome of the run and the file system it leaves. The two
  lines printed at the end are not modelled.
\<close>

definition build ::
  "pylib \<Rightarrow> (nat \<Rightarrow> string) \<Rightarrow> path \<Rightarrow> path \<Rightarrow> path \<Rightarrow> filesystem \<Rightarrow> (error + unit) \<times> filesystem" where
  "build L ids input_xlsx template_path dist_dir s =
     (case mkdir_parents dist_dir s of
        Inl e \<Rightarrow> (Inl e, s)
      | Inr s1 \<Rightarrow>
          (case render_html L ids s1 input_xlsx template_path of
             Inl e \<Rightarrow> (Inl e, s1)
           | Inr html \<Rightarrow>
               (case write_text s1 (dist_dir @ [''index.html'']) html of
                  Inl e \<Rightarrow> (Inl e, s1)
                | Inr s2 \<Rightarrow>
                    (case copyfile s2 input_xlsx (dist_dir @ [excel_filename_latest]) of
                       Inl e \<Rightarrow> (Inl e, s2)
                     | Inr s3 \<Rightarrow> (Inr (), s3)))))"


section \<open>An instance of the library parameters for concrete runs\<close>

text \<open>
  The examples below run the model on concrete inputs, and for that the library
  parameters need values. \<open>sample_lib\<close> is a small stand-in that agrees with Python on the
  inputs the examples use: its parsers read a string of ASCII digits as that integer and
  refuse a string with any other character; the float it prints is a whole number; its
  chart markup keeps, of what plotly emits, the reference to the plotly.js library and
  the \<^verbatim>\<open>div\<close> element that carries the fresh identifier; its template engine knows the
  template \<^verbatim>\<open>{{ chart_month }}\<close>, which renders as the month chart's string, and a
  template of plain text, which renders as itself.
\<close>

definition digit_value :: "char \<Rightarrow> nat option" where
  "digit_value c = map_of (zip ''0123456789'' [0, 1, 2, 3, 4, 5, 6, 7, 8, 9]) c"

fun parse_digits :: "nat \<Rightarrow> string \<Rightarrow> nat option" where
  "parse_digits acc [] = Some acc"
| "parse_digits acc (c # cs) =
     (case digit_value c of None \<Rightarrow> None | Some d \<Rightarrow> parse_digits (10 * acc + d) cs)"

definition sample_int_of_str :: "string \<Rightarrow> int option" where
  "sample_int_of_str s = (if s = [] then None else map_option int (parse_digits 0 s))"

definition sample_str_of_float :: "pyfloat \<Rightarrow> string" where
  "sample_str_of_float v =
     (case v of Finite m k \<Rightarrow> show_int (m div 2 ^ k) @ ''.0'' | NegZero \<Rightarrow> ''-0.0''
      | NaN \<Rightarrow> ''nan'' | PosInf \<Rightarrow> ''inf'' | NegInf \<Rightarrow> ''-inf'')"

definition plotlyjs_script :: string where
  "plotlyjs_script =
     ''<script src='' @ [CHR 0x22] @ ''https://cdn.plot.ly/plotly.min.js'' @ [CHR 0x22]
     @ ''></script>''"

definition chart_div :: "string \<Rightarrow> string" where
  "chart_div uid =
     ''<div id='' @ [CHR 0x22] @ uid @ [CHR 0x22] @ '' class='' @ [CHR 0x22]
     @ ''plotly-graph-div'' @ [CHR 0x22] @ ''></div>''"

definition sample_to_html :: "plotlyjs \<Rightarrow> figure \<Rightarrow> string \<Rightarrow> error + string" where
  "sample_to_html js fig uid =
     Inr ((case js of Cdn \<Rightarrow> plotlyjs_script | NoPlotlyJs \<Rightarrow> []) @ chart_div uid)"

definition plain_text :: "string \<Rightarrow> bool" where
  "plain_text t = (CHR ''{'' \<notin> set t \<and> CHR 0x0A \<notin> set t)"

definition sample_compile_template :: "string \<Rightarrow> error option" where
  "sample_compile_template t =
     (if t = ''{{ chart_month }}'' \<or> plain_text t then None else Some TemplateError)"

definition sample_render :: "string \<Rightarrow> render_args \<Rightarrow> error + string" where
  "sample_render t a =
     (if t = ''{{ chart_month }}'' then Inr (chart_month a)
      else if plain_text t then Inr t else Inl TemplateError)"

definition sample_lib :: pylib where
  "sample_lib =
     \<lparr>str_of_float = sample_str_of_float,
      float_of_str = (\<lambda>s. map_option (\<lambda>n. Finite n 0) (sample_int_of_str s)),
      int_of_str = sample_int_of_str,
      numeric_of_str = (\<lambda>s. map_option CInt (sample_int_of_str s)),
      to_html = sample_to_html,
      compile_template = sample_compile_template,
      render = sample_render\<rparr>"

text \<open>
  A dashboard sheet laid out as the configuration expects, and a summary sheet: the
  pending-value column holds a text that is no number, an empty cell and a number.
\<close>

definition sample_dashboard :: sheet where
  "sample_dashboard = (\<lambda>(r, c).
     if r = 9 then
       (if c = 1 then CStr ''Month'' else if c = 2 then CStr purchases_col
        else if c = 3 then CStr sales_col else if c = 4 then CStr profit_col else CNone)
     else if 10 \<le> r \<and> r \<le> 21 \<and> c = 1 then CStr ''Jan''
     else if 10 \<le> r \<and> r \<le> 21 \<and> c \<le> 4 then CInt 100
     else if r = 46 then
       (if c = 6 \<or> c = 10 then CStr ''Category'' else if c = 7 then CStr ''Qty Sold''
        else if c = 8 then CStr ''Qty Pending'' else if c = 11 then CStr pending_value_col
        else CNone)
     else if 47 \<le> r \<and> r \<le> 49 \<and> (c = 6 \<or> c = 10) then CStr ''Shirts''
     else if r = 47 \<and> c = 11 then CStr ''n/a''
     else if r = 48 \<and> c = 11 then CNone
     else if 47 \<le> r \<and> r \<le> 49 \<and> 7 \<le> c \<and> c \<le> 11 then CInt 3
     else if r = 3 \<and> c = 2 then CInt 45000
     else if r = 10 \<and> c = 7 then CInt 12
     else CNone)"

definition sample_summary :: sheet where
  "sample_summary = (\<lambda>(r, c).
     if r = 17 \<or> r = 25 then
       (if c = 1 then CStr ''Partner'' else if c = 6 then CStr ''Target''
        else if c = 7 then CStr ''Paid'' else CStr ''Other'')
     else if c = 1 then CStr ''Asha''
     else if c = 2 \<and> r = 7 then CStr ''Profit''
     else CInt 250)"




definition sample_fs_text_count :: filesystem where
  "sample_fs_text_count =
     \<lparr>dirs = {},
      files = [[''book.xlsx''] \<mapsto>
                 Workbook [''Summary'' \<mapsto> sample_summary,
                           ''Dashboard'' \<mapsto> sample_dashboard((10, 7) := CStr ''n/a'')],
               [''template.html''] \<mapsto> Text ''{{ chart_month }}'']\<rparr>"


section \<open>Notions of the specification\<close>


text \<open>
  The specification's column-wise rewriting: in every column whose label satisfies \<open>P\<close>
  each value \<open>v\<close> is replaced by \<open>F v\<close>; every other column, the labels and the order of
  columns and rows stay as they are.
\<close>

definition rewrite_row :: "(cell \<Rightarrow> bool) \<Rightarrow> (cell \<Rightarrow> cell) \<Rightarrow> cell list \<Rightarrow> cell list \<Rightarrow> cell list" where
  "rewrite_row P F labels r = map (\<lambda>(l, x). if P l then F x else x) (zip labels r)"

definition spec_rewrite_columns :: "(cell \<Rightarrow> bool) \<Rightarrow> (cell \<Rightarrow> cell) \<Rightarrow> table \<Rightarrow> table" where
  "spec_rewrite_columns P F df = df\<lparr>rows := map (rewrite_row P F (columns df)) (rows df)\<rparr>"




text \<open>
  A calendar date is valid when its month and its day exist. The count of days from one
  date to another is the difference of their ordinals, which count the days of the
  years and months gone by.
\<close>

definition valid_date :: "pydate \<Rightarrow> bool" where
  "valid_date d =
     (1 \<le> year d \<and> 1 \<le> pydate.month d \<and> pydate.month d \<le> 12 \<and>
      1 \<le> day d \<and> day d \<le> days_in_month (year d) (pydate.month d))"

definition days_from :: "pydate \<Rightarrow> pydate \<Rightarrow> int" where
  "days_from a b = ymd2ord b - ymd2ord a"

section \<open>Properties\<close>

subsection \<open>Evaluation rules\<close>

lemma show_nat_lt: "n < 10 \<Longrightarrow> show_nat n = [digit_char n]"
  by (subst show_nat.simps) simp

lemma show_nat_ge: "\<not> n < 10 \<Longrightarrow> show_nat n = show_nat (n div 10) @ [digit_char (n mod 10)]"
  by (subst show_nat.simps) simp

lemma group_nat_lt: "n < 1000 \<Longrightarrow> group_nat n = show_nat n"
  by (subst group_nat.simps) simp

lemma group_nat_ge:
  "\<not> n < 1000 \<Longrightarrow> group_nat n = group_nat (n div 1000) @ '','' @ pad_nat 3 (n mod 1000)"
  by (subst group_nat.simps) simp

lemmas fmt_eval =
  show_nat_lt show_nat_ge group_nat_lt group_nat_ge fixed_decimal_def round_half_even_def
  pad_nat_def digit_char_def Let_def

lemma then_do_Inl [simp]: "then_do (Inl e) f = Inl e"
  by (simp add: then_do_def)

lemma then_do_Inr [simp]: "then_do (Inr x) f = f x"
  by (simp add: then_do_def)

lemmas config_defs =
  SHEET_SUMMARY_def SHEET_DASHBOARD_def CELL_TOTAL_PURCHASES_def
  CELL_TOTAL_SALES_COMPLETED_def CELL_PROFIT_LOSS_COMPLETED_def CELL_PROFIT_STATUS_def
  CELL_LAST_UPDATED_def CELL_PENDING_STOCK_VALUE_def CELL_QTY_SOLD_def CELL_QTY_PENDING_def
  MONTH_HEADER_ROW_def MONTH_DATA_ROWS_def MONTH_COLS_def CATQTY_HEADER_ROW_def
  CATQTY_DATA_ROWS_def CATQTY_COLS_def PENDVAL_HEADER_ROW_def PENDVAL_DATA_ROWS_def
  PENDVAL_COLS_def CONTRIB_HEADER_ROW_def CONTRIB_DATA_ROWS_def CONTRIB_COLS_def
  CASH_HEADER_ROW_def CASH_DATA_ROWS_def CASH_COLS_def

subsection \<open>The currency formatters\<close>

lemma money_try_Inl:
  "money0_try L x = Inl e \<longleftrightarrow> x \<noteq> CNone \<and> \<not> is_float_nan x \<and> py_float L x = Inl e"
  "money2_try L x = Inl e \<longleftrightarrow> x \<noteq> CNone \<and> \<not> is_float_nan x \<and> py_float L x = Inl e"
  by (auto simp: money0_try_def money2_try_def split: sum.splits)

lemma py_float_Inl_not_nan: "py_float L x = Inl e \<Longrightarrow> \<not> is_float_nan x"
  by (cases x) (auto simp: is_float_nan_def split: pyfloat.splits)


text \<open>
  C4. The currency formatters always return a string (the handler of the \<^verbatim>\<open>try\<close> block
  returns \<^verbatim>\<open>str(x)\<close>, so no exception leaves them): with no decimals \<open>1234.5\<close> gives
  "the rupee sign and 1,234" and both \<^verbatim>\<open>None\<close> and NaN give "the rupee sign and 0"; with two decimals \<open>1234.5\<close> gives
  "the rupee sign and 1,234.50" and both \<^verbatim>\<open>None\<close> and NaN give "the rupee sign and 0.00"; and for a value other than
  \<^verbatim>\<open>None\<close> whose conversion by \<^verbatim>\<open>float\<close> raises, each returns the value's \<^verbatim>\<open>str\<close>.
\<close>

theorem money_formatters:
  "money0 L (CFloat (Finite 2469 1)) = rupee @ ''1,234'' \<and>
   money0 L CNone = rupee @ ''0'' \<and>
   money0 L (CFloat NaN) = rupee @ ''0'' \<and>
   money2 L (CFloat (Finite 2469 1)) = rupee @ ''1,234.50'' \<and>
   money2 L CNone = rupee @ ''0.00'' \<and>
   money2 L (CFloat NaN) = rupee @ ''0.00'' \<and>
   (x \<noteq> CNone \<and> py_float L x = Inl e \<longrightarrow> money0 L x = py_str L x \<and> money2 L x = py_str L x)"
proof -
  have fallback: "money0 L x = py_str L x \<and> money2 L x = py_str L x"
    if "x \<noteq> CNone" and "py_float L x = Inl e"
  proof -
    have "money0_try L x = Inl e" "money2_try L x = Inl e"
      using that py_float_Inl_not_nan [OF that(2)] by (simp_all add: money_try_Inl)
    then show ?thesis
      by (simp add: money0_def money2_def)
  qed
  have "money0 L (CFloat (Finite 2469 1)) = rupee @ ''1,234''"
    by (simp add: money0_def money0_try_def is_float_nan_def fmt_eval)
  moreover have "money0 L CNone = rupee @ ''0''"
    by (simp add: money0_def money0_try_def fmt_eval)
  moreover have "money0 L (CFloat NaN) = rupee @ ''0''"
    by (simp add: money0_def money0_try_def is_float_nan_def fmt_eval)
  moreover have "money2 L (CFloat (Finite 2469 1)) = rupee @ ''1,234.50''"
    by (simp add: money2_def money2_try_def is_float_nan_def fmt_eval)
  moreover have "money2 L CNone = rupee @ ''0.00''"
    by (simp add: money2_def money2_try_def fmt_eval)
  moreover have "money2 L (CFloat NaN) = rupee @ ''0.00''"
    by (simp add: money2_def money2_try_def is_float_nan_def fmt_eval)
  ultimately show ?thesis
    using fallback by blast
qed

text \<open>The fallback at a text that is no number: \<^verbatim>\<open>money0("n/a")\<close> is \<^verbatim>\<open>"n/a"\<close>.\<close>

theorem money_formatters_witness:
  "CStr ''n/a'' \<noteq> CNone \<and> py_float sample_lib (CStr ''n/a'') = Inl ValueError \<and>
   money0 sample_lib (CStr ''n/a'') = ''n/a'' \<and> money2 sample_lib (CStr ''n/a'') = ''n/a''"
proof -
  have h: "py_float sample_lib (CStr ''n/a'') = Inl ValueError"
    by (simp add: sample_lib_def sample_int_of_str_def digit_value_def)
  show ?thesis
    using h money_formatters [of sample_lib "CStr ''n/a''" ValueError] by simp
qed

subsection \<open>The date formatter\<close>










subsection \<open>Column-wise rewriting of a data frame\<close>

lemma columns_rewrite [simp]: "columns (spec_rewrite_columns P F df) = columns df"
  by (simp add: spec_rewrite_columns_def)


lemma length_rewrite_row [simp]:
  "length (rewrite_row P F labels r) = min (length labels) (length r)"
  by (simp add: rewrite_row_def)




lemma zip_map_zip:
  "zip xs (map h (zip xs ys)) = map (\<lambda>(l, x). (l, h (l, x))) (zip xs ys)"
  by (induction xs ys rule: list_induct2') auto



lemma index_filter_length:
  "length (filter (\<lambda>i. xs ! i = c) [0..<length xs]) = count_list xs c"
proof -
  let ?P = "\<lambda>x. x = c"
  have "filter ?P (map ((!) xs) [0..<length xs]) = map ((!) xs) (filter (?P \<circ> (!) xs) [0..<length xs])"
    by (rule filter_map)
  then have "filter ?P xs = map ((!) xs) (filter (?P \<circ> (!) xs) [0..<length xs])"
    by (simp only: map_nth)
  then have "length (filter ?P xs) = length (filter (?P \<circ> (!) xs) [0..<length xs])"
    by (simp only: length_map)
  moreover have "?P \<circ> (!) xs = (\<lambda>i. xs ! i = c)"
    by (simp add: fun_eq_iff)
  moreover have "count_list xs c = length (filter ?P xs)"
    by (induction xs) auto
  ultimately show ?thesis
    by simp
qed

lemma getitem_unique:
  assumes "count_list (columns df) c = 1"
  shows "\<exists>i < length (columns df).
           (\<forall>j < length (columns df). columns df ! j = c \<longrightarrow> j = i) \<and>
           getitem df c = Inr (Series (map (\<lambda>r. r ! i) (rows df)))"
proof -
  let ?js = "filter (\<lambda>i. columns df ! i = c) [0..<length (columns df)]"
  have "length ?js = 1"
    using assms by (simp add: index_filter_length)
  then obtain i where js: "?js = [i]"
    by (cases ?js) auto
  then have mem: "j \<in> set ?js \<longleftrightarrow> j = i" for j
    by simp
  have "i < length (columns df)"
    using mem [of i] by auto
  moreover have "\<forall>j < length (columns df). columns df ! j = c \<longrightarrow> j = i"
    using mem by auto
  moreover have "getitem df c = Inr (Series (map (\<lambda>r. r ! i) (rows df)))"
    unfolding getitem_def js by simp
  ultimately show ?thesis
    by blast
qed

lemma getitem_repeated:
  assumes "1 < count_list (columns df) c"
  shows "\<exists>t. getitem df c = Inr (SubFrame t)"
proof -
  let ?js = "filter (\<lambda>i. columns df ! i = c) [0..<length (columns df)]"
  have "1 < length ?js"
    using assms by (simp add: index_filter_length)
  then obtain i j ks where "?js = i # j # ks"
    by (cases ?js; cases "tl ?js") auto
  then show ?thesis
    unfolding getitem_def by simp
qed








lemma read_range_row: "read_range ws h h a b ! 0 = map (\<lambda>c. ws (h, c)) [a..<b + 1]"
  by (simp add: read_range_def)

lemma columns_df_from_range:
  "columns (df_from_range ws h dr cs) = map (\<lambda>c. ws (h, c)) [fst cs..<snd cs + 1]"
  by (simp add: df_from_range_def read_range_row)

lemma rows_df_from_range:
  "rows (df_from_range ws h dr cs) =
   map (\<lambda>r. map (\<lambda>c. ws (r, c)) [fst cs..<snd cs + 1]) [fst dr..<snd dr + 1]"
  by (simp add: df_from_range_def read_range_def)


subsection \<open>The column-wide currency formatter\<close>



subsection \<open>The narrowed tables\<close>

lemma upt_1_8: "[1..<8] = [1, 2, 3, 4, 5, 6, 7 :: nat]"
  by (simp add: upt_rec)

lemma iloc_first_last_two:
  assumes "columns df = [a, b, c, d, e, f, g]"
  shows "iloc_cols df [0, - 2, - 1] =
         Inr \<lparr>columns = [a, f, g], rows = map (\<lambda>r. [r ! 0, r ! 5, r ! 6]) (rows df)\<rparr>"
  by (simp add: iloc_cols_def assms py_index_def)

lemma narrowed_range:
  "iloc_cols (df_from_range ws h (r, r + 2) (1, 7)) [0, - 2, - 1] =
     Inr \<lparr>columns = [ws (h, 1), ws (h, 6), ws (h, 7)],
          rows = map (\<lambda>r. [ws (r, 1), ws (r, 6), ws (r, 7)]) [r, r + 1, r + 2]\<rparr>"
proof -
  have "columns (df_from_range ws h (r, r + 2) (1, 7)) =
        [ws (h, 1), ws (h, 2), ws (h, 3), ws (h, 4), ws (h, 5), ws (h, 6), ws (h, 7)]"
    using upt_1_8 by (simp add: columns_df_from_range)
  moreover have "[r..<r + 3] = [r, r + 1, r + 2]"
    by (simp add: upt_rec numeral_eq_Suc)
  moreover have "[1..<8] = [1, 2, 3, 4, 5, 6, 7 :: nat]"
    by (rule upt_1_8)
  ultimately show ?thesis
    by (simp add: iloc_first_last_two rows_df_from_range numeral_eq_Suc)
qed

text \<open>
  C8. The contribution table and the cash-pool table are read from columns A to G and
  narrowed to three columns, in this order: the first (A) and the last two (F and G) of
  the extracted range; columns B to E are dropped. The currency formatter works on the
  narrowed tables.
\<close>

theorem tables_narrowed:
  "contrib_table ws =
     Inr \<lparr>columns = [ws (17, 1), ws (17, 6), ws (17, 7)],
          rows = map (\<lambda>r. [ws (r, 1), ws (r, 6), ws (r, 7)]) [18, 19, 20]\<rparr> \<and>
   cash_table ws =
     Inr \<lparr>columns = [ws (25, 1), ws (25, 6), ws (25, 7)],
          rows = map (\<lambda>r. [ws (r, 1), ws (r, 6), ws (r, 7)]) [26, 27, 28]\<rparr>"
  using narrowed_range [of ws 17 18] narrowed_range [of ws 25 26]
  by (simp add: contrib_table_def cash_table_def config_defs)

subsection \<open>Numeric coercion before charting\<close>





lemma expected_names_differ:
  "purchases_col \<noteq> sales_col" "purchases_col \<noteq> profit_col" "sales_col \<noteq> profit_col"
  "purchases_col \<noteq> ''Month''" "sales_col \<noteq> ''Month''" "profit_col \<noteq> ''Month''"
  "pending_value_col \<noteq> ''Category''"
  by (simp_all add: purchases_col_def sales_col_def profit_col_def pending_value_col_def)


subsection \<open>Chart slots\<close>

lemma has_columns_iff: "has_columns names df \<longleftrightarrow> (\<forall>n \<in> set names. CStr n \<in> set (columns df))"
  by (simp add: has_columns_def list_all_iff)

lemma getitem_present:
  assumes "c \<in> set (columns df)"
  shows "\<exists>sel. getitem df c = Inr sel"
proof -
  from assms have "count_list (columns df) c \<noteq> 0"
    by (simp add: count_list_0_iff)
  then consider "count_list (columns df) c = 1" | "1 < count_list (columns df) c"
    by linarith
  then show ?thesis
  proof cases
    case 1
    from getitem_unique [OF 1] show ?thesis
      by blast
  next
    case 2
    from getitem_repeated [OF 2] show ?thesis
      by blast
  qed
qed


text \<open>
  C6. A chart slot whose table lacks one of the slot's expected column names (compared
  as they are, so case matters) yields the slot's fixed placeholder string, calls the
  charting library not at all and raises nothing. When all four slots lack a column,
  chart building returns the four placeholders.
\<close>

theorem chart_placeholders:
  "(\<not> has_columns [''Month'', purchases_col, sales_col] m \<longrightarrow>
      month_slot L ids k m = (Inr month_placeholder, k)) \<and>
   (\<not> has_columns [''Month'', profit_col] m \<longrightarrow>
      profit_slot L ids k m = (Inr profit_placeholder, k)) \<and>
   (\<not> has_columns [''Category'', ''Qty Sold'', ''Qty Pending''] c \<longrightarrow>
      cat_qty_slot L ids k c = (Inr cat_qty_placeholder, k)) \<and>
   (\<not> has_columns [''Category'', pending_value_col] p \<longrightarrow>
      pending_val_slot L ids k p = (Inr pending_val_placeholder, k)) \<and>
   (\<not> has_columns [''Month'', purchases_col, sales_col] m \<and>
    \<not> has_columns [''Month'', profit_col] m \<and>
    \<not> has_columns [''Category'', ''Qty Sold'', ''Qty Pending''] c \<and>
    \<not> has_columns [''Category'', pending_value_col] p \<longrightarrow>
      build_charts L ids m c p =
        Inr \<lparr>month = month_placeholder, profit = profit_placeholder,
             cat_qty = cat_qty_placeholder, pending_val = pending_val_placeholder\<rparr>) \<and>
   (has_columns names df \<longleftrightarrow> (\<forall>n \<in> set names. CStr n \<in> set (columns df)))"
  by (simp add: month_slot_def profit_slot_def cat_qty_slot_def pending_val_slot_def
      build_charts_def has_columns_iff)

text \<open>A header that spells the month column in lower case: the monthly chart is dropped.\<close>

theorem chart_placeholders_witness:
  "\<not> has_columns [''Month'', purchases_col, sales_col]
       \<lparr>columns = [CStr ''month'', CStr purchases_col, CStr sales_col], rows = []\<rparr> \<and>
   month_slot sample_lib (\<lambda>k. ''chart-a'') 0
       \<lparr>columns = [CStr ''month'', CStr purchases_col, CStr sales_col], rows = []\<rparr> =
     (Inr month_placeholder, 0)"
proof -
  have absent: "\<not> has_columns [''Month'', purchases_col, sales_col]
       \<lparr>columns = [CStr ''month'', CStr purchases_col, CStr sales_col], rows = []\<rparr>"
    using expected_names_differ by (simp add: has_columns_def)
  with chart_placeholders [of "\<lparr>columns = [CStr ''month'', CStr purchases_col, CStr sales_col], rows = []\<rparr>"
      sample_lib "\<lambda>k. ''chart-a''" 0]
  show ?thesis
    by blast
qed

text \<open>
  C7. A slot that is built serializes its figure with one call of \<^verbatim>\<open>pio.to_html\<close>: the
  first slot, the monthly chart, asks for the plotly.js reference
  (\<^verbatim>\<open>include_plotlyjs="cdn"\<close>); the three slots after it ask for none
  (\<^verbatim>\<open>include_plotlyjs=False\<close>).
\<close>

theorem first_chart_bundles_library:
  "(has_columns [''Month'', purchases_col, sales_col] m \<longrightarrow>
      (\<exists>x y1 y2. month_slot L ids k m =
         (to_html L Cdn (GoFigure [Bar x y1 ''Purchases'', Bar x y2 ''Sales''] ''group''
            ''Monthly Purchases vs Sales'') (ids k), Suc k))) \<and>
   (has_columns [''Month'', profit_col] m \<longrightarrow>
      profit_slot L ids k m =
        (to_html L NoPlotlyJs
           (PxLine m ''Month'' profit_col True (''Monthly Profit ('' @ rupee @ '')'')) (ids k), Suc k)) \<and>
   (has_columns [''Category'', ''Qty Sold'', ''Qty Pending''] c \<longrightarrow>
      (\<exists>x y1 y2. cat_qty_slot L ids k c =
         (to_html L NoPlotlyJs (GoFigure [Bar x y1 ''Qty Sold'', Bar x y2 ''Qty Pending''] ''stack''
            ''Quantity by Category'') (ids k), Suc k))) \<and>
   (has_columns [''Category'', pending_value_col] p \<longrightarrow>
      pending_val_slot L ids k p =
        (to_html L NoPlotlyJs
           (PxBar p ''Category'' pending_value_col
              (''Pending Stock Value by Category ('' @ rupee @ '')'')) (ids k), Suc k))"
proof -
  have month: "\<exists>x y1 y2. month_slot L ids k m =
         (to_html L Cdn (GoFigure [Bar x y1 ''Purchases'', Bar x y2 ''Sales''] ''group''
            ''Monthly Purchases vs Sales'') (ids k), Suc k)"
    if h: "has_columns [''Month'', purchases_col, sales_col] m"
  proof -
    from h have mem: "CStr ''Month'' \<in> set (columns m)" "CStr purchases_col \<in> set (columns m)"
      "CStr sales_col \<in> set (columns m)"
      by (simp_all add: has_columns_def)
    from getitem_present [OF mem(1)] obtain x where x: "getitem m (CStr ''Month'') = Inr x"
      by blast
    from getitem_present [OF mem(2)] obtain y1 where y1: "getitem m (CStr purchases_col) = Inr y1"
      by blast
    from getitem_present [OF mem(3)] obtain y2 where y2: "getitem m (CStr sales_col) = Inr y2"
      by blast
    from h x y1 y2 have "month_slot L ids k m =
         (to_html L Cdn (GoFigure [Bar x y1 ''Purchases'', Bar x y2 ''Sales''] ''group''
            ''Monthly Purchases vs Sales'') (ids k), Suc k)"
      by (simp add: month_slot_def bar_trace_def)
    then show ?thesis
      by blast
  qed
  have cat: "\<exists>x y1 y2. cat_qty_slot L ids k c =
         (to_html L NoPlotlyJs (GoFigure [Bar x y1 ''Qty Sold'', Bar x y2 ''Qty Pending''] ''stack''
            ''Quantity by Category'') (ids k), Suc k)"
    if h: "has_columns [''Category'', ''Qty Sold'', ''Qty Pending''] c"
  proof -
    from h have mem: "CStr ''Category'' \<in> set (columns c)" "CStr ''Qty Sold'' \<in> set (columns c)"
      "CStr ''Qty Pending'' \<in> set (columns c)"
      by (simp_all add: has_columns_def)
    from getitem_present [OF mem(1)] obtain x where x: "getitem c (CStr ''Category'') = Inr x"
      by blast
    from getitem_present [OF mem(2)] obtain y1 where y1: "getitem c (CStr ''Qty Sold'') = Inr y1"
      by blast
    from getitem_present [OF mem(3)] obtain y2 where y2: "getitem c (CStr ''Qty Pending'') = Inr y2"
      by blast
    from h x y1 y2 have "cat_qty_slot L ids k c =
         (to_html L NoPlotlyJs (GoFigure [Bar x y1 ''Qty Sold'', Bar x y2 ''Qty Pending''] ''stack''
            ''Quantity by Category'') (ids k), Suc k)"
      by (simp add: cat_qty_slot_def bar_trace_def)
    then show ?thesis
      by blast
  qed
  show ?thesis
    using month cat by (simp add: profit_slot_def pending_val_slot_def)
qed

text \<open>
  With the sample library the monthly chart starts with the script element that loads
  plotly.js, and the profit chart is the bare \<^verbatim>\<open>div\<close>.
\<close>

theorem first_chart_bundles_library_witness:
  "has_columns [''Month'', purchases_col, sales_col]
     \<lparr>columns = [CStr ''Month'', CStr purchases_col, CStr sales_col, CStr profit_col], rows = []\<rparr> \<and>
   has_columns [''Month'', profit_col]
     \<lparr>columns = [CStr ''Month'', CStr purchases_col, CStr sales_col, CStr profit_col], rows = []\<rparr> \<and>
   month_slot sample_lib (\<lambda>k. ''chart-a'') 0
     \<lparr>columns = [CStr ''Month'', CStr purchases_col, CStr sales_col, CStr profit_col], rows = []\<rparr> =
     (Inr (plotlyjs_script @ chart_div ''chart-a''), 1) \<and>
   profit_slot sample_lib (\<lambda>k. ''chart-a'') 1
     \<lparr>columns = [CStr ''Month'', CStr purchases_col, CStr sales_col, CStr profit_col], rows = []\<rparr> =
     (Inr (chart_div ''chart-a''), 2)"
proof -
  let ?m = "\<lparr>columns = [CStr ''Month'', CStr purchases_col, CStr sales_col, CStr profit_col], rows = []\<rparr>"
  have h: "has_columns [''Month'', purchases_col, sales_col] ?m" "has_columns [''Month'', profit_col] ?m"
    by (simp_all add: has_columns_def)
  have lib: "to_html sample_lib Cdn fig uid = Inr (plotlyjs_script @ chart_div uid)"
    "to_html sample_lib NoPlotlyJs fig uid = Inr (chart_div uid)" for fig uid
    by (simp_all add: sample_lib_def sample_to_html_def)
  from first_chart_bundles_library [of ?m sample_lib "\<lambda>k. ''chart-a''" 0] h(1)
  have "month_slot sample_lib (\<lambda>k. ''chart-a'') 0 ?m = (Inr (plotlyjs_script @ chart_div ''chart-a''), 1)"
    by (auto simp: lib)
  moreover from first_chart_bundles_library [of ?m sample_lib "\<lambda>k. ''chart-a''" 1] h(2)
  have "profit_slot sample_lib (\<lambda>k. ''chart-a'') 1 ?m = (Inr (chart_div ''chart-a''), 2)"
    by (auto simp: lib)
  ultimately show ?thesis
    using h by simp
qed

subsection \<open>Failing runs\<close>

lemma isl_then_doI: "(\<And>x. m = Inr x \<Longrightarrow> isl (f x)) \<Longrightarrow> isl (then_do m f)"
  by (cases m) simp_all


lemma files_mkdir: "mkdir_parents d s = Inr s1 \<Longrightarrow> files s1 = files s"
  by (auto simp: mkdir_parents_def split: if_splits)

lemma dirs_mkdir: "mkdir_parents d s = Inr s1 \<Longrightarrow> dirs s1 = dirs s \<union> set (with_parents d)"
  by (auto simp: mkdir_parents_def split: if_splits)

lemma build_render_fails:
  assumes "\<And>s1. files s1 = files s \<Longrightarrow> isl (render_html L ids s1 i t)"
  shows "isl (fst (build L ids i t d s)) \<and> files (snd (build L ids i t d s)) = files s \<and>
         (dirs (snd (build L ids i t d s)) = dirs s \<or>
          dirs (snd (build L ids i t d s)) = dirs s \<union> set (with_parents d))"
proof (cases "mkdir_parents d s")
  case (Inl e)
  then show ?thesis
    by (simp add: build_def)
next
  case (Inr s1)
  from assms [OF files_mkdir [OF Inr]] obtain e where "render_html L ids s1 i t = Inl e"
    by (cases "render_html L ids s1 i t") auto
  with Inr show ?thesis
    by (simp add: build_def files_mkdir [OF Inr] dirs_mkdir [OF Inr])
qed


lemma kpi_render_fails:
  assumes "files s1 i = Some (Workbook wb)" "wb SHEET_DASHBOARD = Some ws_dash"
    and "q = ws_dash CELL_QTY_SOLD \<or> q = ws_dash CELL_QTY_PENDING"
    and "q \<noteq> CNone" "py_int L q = Inl e"
  shows "isl (render_html L ids s1 i t)"
proof -
  have kpi: "kpi_count L q = Inl e"
    using assms(4,5) by (simp add: kpi_count_def)
  have load: "load_workbook s1 i = Inr wb"
    using assms(1) by (simp add: load_workbook_def)
  have "get_sheet wb SHEET_DASHBOARD = Inr ws_dash"
    using assms(2) by (simp add: get_sheet_def)
  then show ?thesis
    unfolding render_html_def load
    apply simp
    apply (intro isl_then_doI)
    using kpi assms(3) by auto
qed




subsection \<open>The integer counts\<close>

text \<open>
  C10. The count of line 209 or 210 is the placeholder, the em dash, when the cell is
  empty. When the cell holds a value that \<^verbatim>\<open>int\<close> refuses, the conversion's exception is the
  outcome of the expression, and the run of \<^verbatim>\<open>build\<close> on a workbook whose quantity-sold or
  quantity-pending cell holds such a value ends with an exception and writes no file.
\<close>

theorem count_kpi_raises:
  "kpi_count L CNone = Inr (CStr em_dash) \<and>
   (q \<noteq> CNone \<and> py_int L q = Inl e \<longrightarrow> kpi_count L q = Inl e) \<and>
   (files s input_xlsx = Some (Workbook wb) \<and> wb SHEET_DASHBOARD = Some ws_dash \<and>
    (q = ws_dash CELL_QTY_SOLD \<or> q = ws_dash CELL_QTY_PENDING) \<and>
    q \<noteq> CNone \<and> py_int L q = Inl e \<longrightarrow>
      isl (fst (build L ids input_xlsx template_path dist_dir s)) \<and>
      files (snd (build L ids input_xlsx template_path dist_dir s)) = files s)"
proof -
  have "isl (fst (build L ids input_xlsx template_path dist_dir s)) \<and>
      files (snd (build L ids input_xlsx template_path dist_dir s)) = files s"
    if h: "files s input_xlsx = Some (Workbook wb)" "wb SHEET_DASHBOARD = Some ws_dash"
      "q = ws_dash CELL_QTY_SOLD \<or> q = ws_dash CELL_QTY_PENDING" "q \<noteq> CNone" "py_int L q = Inl e"
  proof -
    have "isl (render_html L ids s1 input_xlsx template_path)" if "files s1 = files s" for s1
      using h that by (intro kpi_render_fails [of s1 input_xlsx wb ws_dash q L e]) simp_all
    from build_render_fails [of s L ids input_xlsx template_path dist_dir, OF this]
    show ?thesis
      by simp
  qed
  then show ?thesis
    by (simp add: kpi_count_def)
qed

text \<open>The text \<^verbatim>\<open>n/a\<close> in the quantity-sold cell: \<^verbatim>\<open>int\<close> raises \<^verbatim>\<open>ValueError\<close> and the run fails.\<close>

theorem count_kpi_raises_witness:
  "py_int sample_lib (CStr ''n/a'') = Inl ValueError \<and>
   kpi_count sample_lib (CStr ''n/a'') = Inl ValueError \<and>
   isl (fst (build sample_lib (\<lambda>k. []) [''book.xlsx''] [''template.html''] [''docs'']
              sample_fs_text_count)) \<and>
   files (snd (build sample_lib (\<lambda>k. []) [''book.xlsx''] [''template.html''] [''docs'']
                 sample_fs_text_count)) = files sample_fs_text_count"
proof -
  let ?wb = "[''Summary'' \<mapsto> sample_summary,
              ''Dashboard'' \<mapsto> sample_dashboard((10, 7) := CStr ''n/a'')]"
  let ?ws = "sample_dashboard((10, 7) := CStr ''n/a'')"
  have conv: "py_int sample_lib (CStr ''n/a'') = Inl ValueError"
    by (simp add: sample_lib_def sample_int_of_str_def digit_value_def)
  have book: "files sample_fs_text_count [''book.xlsx''] = Some (Workbook ?wb)"
    by (simp add: sample_fs_text_count_def)
  have dash: "?wb SHEET_DASHBOARD = Some ?ws"
    by (simp add: SHEET_DASHBOARD_def)
  have held: "CStr ''n/a'' = ?ws CELL_QTY_SOLD \<or> CStr ''n/a'' = ?ws CELL_QTY_PENDING"
    by (simp add: CELL_QTY_SOLD_def)
  from count_kpi_raises [of sample_lib "CStr ''n/a''" ValueError sample_fs_text_count
      "[''book.xlsx'']" ?wb ?ws "\<lambda>k. []" "[''template.html'']" "[''docs'']"]
    conv book dash held
  show ?thesis
    by simp
qed

subsection \<open>What the rendered document depends on\<close>



lemma columns_setitem [simp]: "columns (setitem df c vs) = columns df"
  by (simp add: setitem_def)














end
